theory Spec2Isabelle
  imports Main "HOL-Library.Word"
begin

section \<open>Byte streams and errors\<close>

text \<open>
  The Go readers (\<^verbatim>\<open>*bufio.Reader\<close>, \<^verbatim>\<open>*tape.File\<close>, \<^verbatim>\<open>*storage.Reader\<close>) are forward-only
  cursors over the bytes of the tape file. A reader is modelled by the bytes that have not
  been consumed yet; every read returns its result together with the bytes left.
\<close>

type_synonym byte = "8 word"
type_synonym bytes = "8 word list"

text \<open>
  The Go \<^verbatim>\<open>error\<close> values of the source. A \<^verbatim>\<open>nil\<close> error is \<open>None\<close> of \<open>error option\<close>.
  The messages of \<^verbatim>\<open>fmt.Errorf\<close> are constructors; \<open>Wrapped\<close> is an error annotated by
  \<^verbatim>\<open>errors.Wrap\<close> or \<^verbatim>\<open>errors.Wrapf\<close> of \<^verbatim>\<open>github.com/pkg/errors\<close>.
\<close>

datatype error =
    EOF
  | UnexpectedEOF
  | TruncatedInput
  | BinaryReadFailed error
  | NotCorrectFormat
  | UnsupportedBlockID byte
  | ExpectedBlockID byte byte
  | Wrapped error string

text \<open>
  \<^verbatim>\<open>errors.Wrapf(err, format, args...)\<close> and \<^verbatim>\<open>errors.Wrap(err, message)\<close> of the library
  \<^verbatim>\<open>github.com/pkg/errors\<close>: "If err is nil, Wrapf returns nil." Otherwise the error is
  returned annotated with the message.
\<close>

definition Wrapf :: "error option \<Rightarrow> string \<Rightarrow> error option" where
  "Wrapf err msg = (case err of None \<Rightarrow> None | Some e \<Rightarrow> Some (Wrapped e msg))"

definition Wrap :: "error option \<Rightarrow> string \<Rightarrow> error option" where
  "Wrap err msg = (case err of None \<Rightarrow> None | Some e \<Rightarrow> Some (Wrapped e msg))"

text \<open>
  \<^verbatim>\<open>bufio.Reader.ReadByte\<close> of the Go standard library: the next byte, or \<^verbatim>\<open>io.EOF\<close> when
  no byte is left. \<^verbatim>\<open>file.ReadByte()\<close> of \<^verbatim>\<open>tape.File\<close> is called with the same two
  results (\<^verbatim>\<open>s.SignalLevel, _ = file.ReadByte()\<close>).
\<close>

definition ReadByte :: "bytes \<Rightarrow> (byte \<times> error option) \<times> bytes" where
  "ReadByte rd = (case rd of [] \<Rightarrow> ((0, Some EOF), []) | b # rest \<Rightarrow> ((b, None), rest))"

text \<open>The value of a byte sequence read as a little-endian number (least significant byte first).\<close>

definition le_value :: "bytes \<Rightarrow> nat" where
  "le_value bs = foldr (\<lambda>b v. unat b + 256 * v) bs 0"

text \<open>
  Modelled from the spec: the field readers of \<^verbatim>\<open>tape.File\<close>, \<^verbatim>\<open>storage.Reader\<close> and
  \<^verbatim>\<open>tape.ReadShort\<close> are not under src/. The spec gives \<^verbatim>\<open>readBytes(n) -> byte[n]\<close>,
  \<^verbatim>\<open>readShort() -> u16\<close> (LE), \<^verbatim>\<open>readLong() -> u32\<close> (LE), and lets a read fail when fewer
  bytes remain than requested. Their call sites in src/ take one result and no error
  (\<^verbatim>\<open>t.PilotPulse = file.ReadShort()\<close>, \<^verbatim>\<open>file.ReadBytes(int(t.Length))\<close>), so a short
  read has no way to its caller: it yields the bytes that remain, filled up with zeros, and
  leaves the stream exhausted.
\<close>

definition ReadBytes :: "nat \<Rightarrow> bytes \<Rightarrow> bytes \<times> bytes" where
  "ReadBytes n rd =
     (if length rd < n then (rd @ replicate (n - length rd) 0, [])
      else (take n rd, drop n rd))"

definition ReadNextBytes :: "nat \<Rightarrow> bytes \<Rightarrow> bytes \<times> bytes" where
  "ReadNextBytes n rd = ReadBytes n rd"

definition ReadByte1 :: "bytes \<Rightarrow> byte \<times> bytes" where
  "ReadByte1 rd = (let (bs, rest) = ReadBytes 1 rd in (word_of_nat (le_value bs), rest))"

definition ReadShort :: "bytes \<Rightarrow> 16 word \<times> bytes" where
  "ReadShort rd = (let (bs, rest) = ReadBytes 2 rd in (word_of_nat (le_value bs), rest))"

definition ReadLong :: "bytes \<Rightarrow> 32 word \<times> bytes" where
  "ReadLong rd = (let (bs, rest) = ReadBytes 4 rd in (word_of_nat (le_value bs), rest))"

text \<open>
  Modelled from the spec: \<^verbatim>\<open>storage.Reader.BytesToLong\<close> is not under src/. It turns four
  bytes, least significant first, into a 32-bit value.
\<close>

definition BytesToLong :: "bytes \<Rightarrow> 32 word" where
  "BytesToLong bs = word_of_nat (le_value bs)"

text \<open>
  Modelled from the spec: \<^verbatim>\<open>storage.Reader.Read(data)\<close> is not under src/. It fills a
  buffer of \<open>n\<close> bytes and returns the count read and an error; the read fails with
  \<open>TruncatedInput\<close> when fewer than \<open>n\<close> bytes remain.
\<close>

definition Read_data :: "nat \<Rightarrow> bytes \<Rightarrow> (nat \<times> error option) \<times> bytes" where
  "Read_data n rd =
     (if length rd < n then ((length rd, Some TruncatedInput), [])
      else ((n, None), drop n rd))"

section \<open>The container header (tzx/read.go)\<close>

record header =
  Signature :: bytes
  Terminator :: byte
  MajorVersion :: byte
  MinorVersion :: byte

definition supportedMajorVersion :: byte where
  "supportedMajorVersion = 1"

definition supportedMinorVersion :: byte where
  "supportedMinorVersion = 20"

text \<open>The seven bytes of the ASCII string \<^verbatim>\<open>ZXTape!\<close>.\<close>

definition ZXTape :: bytes where
  "ZXTape = [0x5A, 0x58, 0x54, 0x61, 0x70, 0x65, 0x21]"

text \<open>The zero value \<^verbatim>\<open>header{}\<close>.\<close>

definition header0 :: header where
  "header0 = \<lparr>Signature = replicate 7 0, Terminator = 0, MajorVersion = 0, MinorVersion = 0\<rparr>"

text \<open>
  \<^verbatim>\<open>binary.Read(r.reader, binary.LittleEndian, &r.header)\<close> of the Go standard library:
  the ten bytes of the struct are read in full and decoded field by field; with fewer than
  ten bytes left the struct is not written and the error is \<^verbatim>\<open>io.EOF\<close> (nothing read) or
  \<^verbatim>\<open>io.ErrUnexpectedEOF\<close>.
\<close>

definition binary_Read :: "bytes \<Rightarrow> (header option \<times> error option) \<times> bytes" where
  "binary_Read rd =
     (if length rd < 10 then ((None, Some (if rd = [] then EOF else UnexpectedEOF)), [])
      else ((Some \<lparr>Signature = take 7 rd, Terminator = rd ! 7,
                   MajorVersion = rd ! 8, MinorVersion = rd ! 9\<rparr>, None), drop 10 rd))"

text \<open>
  \<^verbatim>\<open>header.valid\<close>. The second result says whether the version warning was printed.
  Every check annotates \<^verbatim>\<open>validationError\<close>, which starts as \<^verbatim>\<open>nil\<close>, with \<^verbatim>\<open>errors.Wrapf\<close>.
\<close>

definition valid :: "'z header_scheme \<Rightarrow> error option \<times> bool" where
  "valid h =
     (let validationError = None;
          sig = ZXTape;
          validationError =
            (if Signature h \<noteq> sig then Wrapf validationError ''Incorrect signature''
             else validationError);
          validationError =
            (if Terminator h \<noteq> 0x1a then Wrapf validationError ''Incorrect terminator''
             else validationError)
      in if MajorVersion h \<noteq> supportedMajorVersion
         then (Wrapf validationError ''Invalid version'', False)
         else if MinorVersion h < supportedMinorVersion
         then (validationError, True)
         else (validationError, False))"

section \<open>Block variants\<close>

subsection \<open>Turbo speed data, ID 0x11 (tape/block_turbo_speed_data.go)\<close>

record TurboSpeedData =
  PilotPulse :: "16 word"
  SyncFirstPulse :: "16 word"
  SyncSecondPulse :: "16 word"
  ZeroBitPulse :: "16 word"
  OneBitPulse :: "16 word"
  PilotTone :: "16 word"
  UsedBits :: byte
  Pause :: "16 word"
  Length :: "16 word"
  LengthSpareByte :: byte
  Data :: bytes

text \<open>The zero value \<^verbatim>\<open>TurboSpeedData{}\<close>; the nil slice is the empty list.\<close>

definition TurboSpeedData0 :: TurboSpeedData where
  "TurboSpeedData0 =
     \<lparr>PilotPulse = 0, SyncFirstPulse = 0, SyncSecondPulse = 0, ZeroBitPulse = 0,
      OneBitPulse = 0, PilotTone = 0, UsedBits = 0, Pause = 0, Length = 0,
      LengthSpareByte = 0, Data = []\<rparr>"

text \<open>
  \<^verbatim>\<open>TurboSpeedData.Process\<close>, statement by statement. The errors of the two
  \<^verbatim>\<open>file.ReadByte()\<close> calls are assigned to \<^verbatim>\<open>_\<close>; the result of the final
  \<^verbatim>\<open>file.ReadBytes(int(t.Length))\<close> is dropped.
\<close>

definition Process :: "TurboSpeedData \<Rightarrow> bytes \<Rightarrow> TurboSpeedData \<times> bytes" where
  "Process t file =
     (let (v, file) = ReadShort file; t = t\<lparr>PilotPulse := v\<rparr>;
          (v, file) = ReadShort file; t = t\<lparr>SyncFirstPulse := v\<rparr>;
          (v, file) = ReadShort file; t = t\<lparr>SyncSecondPulse := v\<rparr>;
          (v, file) = ReadShort file; t = t\<lparr>ZeroBitPulse := v\<rparr>;
          (v, file) = ReadShort file; t = t\<lparr>PilotTone := v\<rparr>;
          ((v, _), file) = ReadByte file; t = t\<lparr>UsedBits := v\<rparr>;
          (v, file) = ReadShort file; t = t\<lparr>Pause := v\<rparr>;
          (v, file) = ReadShort file; t = t\<lparr>TurboSpeedData.Length := v\<rparr>;
          ((v, _), file) = ReadByte file; t = t\<lparr>LengthSpareByte := v\<rparr>;
          (_, file) = ReadBytes (unat (TurboSpeedData.Length t)) file
      in (t, file))"

subsection \<open>Turbo speed data, ID 0x11 (spectrum/tzx/blocks, on a storage.Reader)\<close>

text \<open>
  \<^verbatim>\<open>DataBlock\<close> has the interface type \<^verbatim>\<open>tap.BlockI\<close>, declared outside src/; \<^verbatim>\<open>Read\<close>
  never assigns it. The model keeps the bytes it would hold, \<open>None\<close> for \<^verbatim>\<open>nil\<close>.
\<close>

record blocks_TurboSpeedData =
  BlockID :: byte
  PilotPulse :: "16 word"
  SyncFirstPulse :: "16 word"
  SyncSecondPulse :: "16 word"
  ZeroBitPulse :: "16 word"
  OneBitPulse :: "16 word"
  PilotTone :: "16 word"
  UsedBits :: byte
  Pause :: "16 word"
  Length :: "32 word"
  DataBlock :: "bytes option"

definition blocks_TurboSpeedData0 :: blocks_TurboSpeedData where
  "blocks_TurboSpeedData0 =
     \<lparr>BlockID = 0, PilotPulse = 0, SyncFirstPulse = 0, SyncSecondPulse = 0,
      ZeroBitPulse = 0, OneBitPulse = 0, PilotTone = 0, UsedBits = 0, Pause = 0,
      Length = 0, DataBlock = None\<rparr>"

text \<open>
  \<^verbatim>\<open>TurboSpeedData.Read\<close> of package \<^verbatim>\<open>blocks\<close>; \<^verbatim>\<open>t.Id()\<close> is \<^verbatim>\<open>types.TurboSpeedData\<close>,
  the block ID 0x11. The buffer \<^verbatim>\<open>data\<close> is local and is dropped on return.
\<close>

definition blocks_Read :: "blocks_TurboSpeedData \<Rightarrow> bytes \<Rightarrow> (blocks_TurboSpeedData \<times> error option) \<times> bytes" where
  "blocks_Read t reader =
     (let (v, reader) = ReadByte1 reader; t = t\<lparr>BlockID := v\<rparr>
      in if BlockID t \<noteq> 0x11 then ((t, Some (ExpectedBlockID 0x11 (BlockID t))), reader)
         else
     (let (v, reader) = ReadShort reader; t = t\<lparr>blocks_TurboSpeedData.PilotPulse := v\<rparr>;
          (v, reader) = ReadShort reader; t = t\<lparr>blocks_TurboSpeedData.SyncFirstPulse := v\<rparr>;
          (v, reader) = ReadShort reader; t = t\<lparr>blocks_TurboSpeedData.SyncSecondPulse := v\<rparr>;
          (v, reader) = ReadShort reader; t = t\<lparr>blocks_TurboSpeedData.ZeroBitPulse := v\<rparr>;
          (v, reader) = ReadShort reader; t = t\<lparr>blocks_TurboSpeedData.OneBitPulse := v\<rparr>;
          (v, reader) = ReadShort reader; t = t\<lparr>blocks_TurboSpeedData.PilotTone := v\<rparr>;
          (v, reader) = ReadByte1 reader; t = t\<lparr>blocks_TurboSpeedData.UsedBits := v\<rparr>;
          (v, reader) = ReadShort reader; t = t\<lparr>blocks_TurboSpeedData.Pause := v\<rparr>;
          (length3, reader) = ReadBytes 3 reader;
          length4 = length3 @ [0];
          t = t\<lparr>blocks_TurboSpeedData.Length := BytesToLong length4\<rparr>;
          ((_, err), reader) = Read_data (unat (blocks_TurboSpeedData.Length t)) reader
      in case err of Some e \<Rightarrow> ((t, Some e), reader) | None \<Rightarrow> ((t, None), reader)))"

subsection \<open>Blocks that follow the extension rule\<close>

text \<open>\<^verbatim>\<open>StopTapeWhen48kMode\<close>, ID 0x2A (spectrum/tzx/blocks/stop_tape_48k_mode.go).\<close>

record StopTapeWhen48kMode =
  Length :: "32 word"

definition StopTapeWhen48kMode_Read :: "StopTapeWhen48kMode \<Rightarrow> bytes \<Rightarrow> StopTapeWhen48kMode \<times> bytes" where
  "StopTapeWhen48kMode_Read s reader =
     (let (v, reader) = ReadLong reader; s = s\<lparr>StopTapeWhen48kMode.Length := v\<rparr>
      in (s, reader))"

text \<open>\<^verbatim>\<open>SetSignalLevel\<close>, ID 0x2B (package tzx). The error of \<^verbatim>\<open>file.ReadByte()\<close> goes to \<^verbatim>\<open>_\<close>.\<close>

record SetSignalLevel =
  Length :: "32 word"
  SignalLevel :: byte

definition SetSignalLevel_Process :: "SetSignalLevel \<Rightarrow> bytes \<Rightarrow> SetSignalLevel \<times> bytes" where
  "SetSignalLevel_Process s file =
     (let (v, file) = ReadLong file; s = s\<lparr>SetSignalLevel.Length := v\<rparr>;
          ((v, _), file) = ReadByte file; s = s\<lparr>SignalLevel := v\<rparr>
      in (s, file))"

subsection \<open>Groups and loops\<close>

text \<open>\<^verbatim>\<open>GroupStart\<close>, ID 0x21, and \<^verbatim>\<open>GroupEnd\<close>, ID 0x22 (spectrum/tzx/blocks/group.go).\<close>

record GroupStart =
  Length :: byte
  GroupName :: bytes

definition GroupStart_Read :: "GroupStart \<Rightarrow> bytes \<Rightarrow> GroupStart \<times> bytes" where
  "GroupStart_Read g reader =
     (let (v, reader) = ReadByte1 reader; g = g\<lparr>GroupStart.Length := v\<rparr>;
          (bs, reader) = ReadNextBytes (unat (GroupStart.Length g)) reader;
          g = foldl (\<lambda>g b. g\<lparr>GroupName := GroupName g @ [b]\<rparr>) g bs
      in (g, reader))"

definition GroupEnd_Read :: "bytes \<Rightarrow> bytes" where
  "GroupEnd_Read reader = reader"

text \<open>\<^verbatim>\<open>LoopStart\<close>, ID 0x24, and \<^verbatim>\<open>LoopEnd\<close>, ID 0x25, reading from a \<^verbatim>\<open>*bufio.Reader\<close>.\<close>

record LoopStart =
  RepetitionCount :: "16 word"

definition LoopStart_Read :: "LoopStart \<Rightarrow> bytes \<Rightarrow> LoopStart \<times> bytes" where
  "LoopStart_Read l reader =
     (let (v, reader) = ReadShort reader; l = l\<lparr>RepetitionCount := v\<rparr>
      in (l, reader))"

definition LoopEnd_Read :: "bytes \<Rightarrow> bytes" where
  "LoopEnd_Read reader = reader"

section \<open>The container reader (tzx/read.go)\<close>

text \<open>
  A \<^verbatim>\<open>tape.Block\<close> interface value: \<^verbatim>\<open>nil\<close>, or a pointer to one of the variants. The
  variants whose declarations are not under src/ are \<open>AbsentB\<close> with the ID they were
  created for.
\<close>

datatype Block =
    NilBlock
  | TurboSpeedDataB TurboSpeedData
  | GroupStartB GroupStart
  | GroupEndB
  | LoopStartB LoopStart
  | LoopEndB
  | StopTapeWhen48kModeB StopTapeWhen48kMode
  | SetSignalLevelB SetSignalLevel
  | AbsentB byte

text \<open>The \<^verbatim>\<open>Id()\<close> methods of the variants; \<^verbatim>\<open>nil\<close> has none.\<close>

fun Id_of :: "Block \<Rightarrow> byte option" where
  "Id_of NilBlock = None"
| "Id_of (TurboSpeedDataB t) = Some 17"
| "Id_of (GroupStartB g) = Some 0x21"
| "Id_of GroupEndB = Some 0x22"
| "Id_of (LoopStartB l) = Some 0x24"
| "Id_of LoopEndB = Some 0x25"
| "Id_of (StopTapeWhen48kModeB s) = Some 0x2a"
| "Id_of (SetSignalLevelB s) = Some 43"
| "Id_of (AbsentB i) = Some i"

text \<open>
  Modelled from the spec: the \<^verbatim>\<open>Read\<close> methods of \<^verbatim>\<open>blocks.ArchiveInfo\<close> and of the block
  variants 0x10, 0x12 to 0x15, 0x18, 0x19, 0x20, 0x23, 0x26 to 0x28, 0x30, 0x31, 0x33,
  0x35 and 0x5A are not under src/. The spec has one decoding routine per block tag, each
  consuming its layout from a forward-only reader, and gives no layout for these. They are
  parameters of the model: \<open>otherRead id rd\<close> is the number of bytes the variant \<open>id\<close>
  consumes from the stream \<open>rd\<close>, \<open>archive0\<close> is the zero value \<^verbatim>\<open>blocks.ArchiveInfo{}\<close>, and
  \<open>archiveRead a rd\<close> is the archive record after \<^verbatim>\<open>a.Read\<close> on the stream \<open>rd\<close> together with
  the number of bytes consumed.
\<close>

record 'a absent =
  otherRead :: "byte \<Rightarrow> bytes \<Rightarrow> nat"
  archive0 :: 'a
  archiveRead :: "'a \<Rightarrow> bytes \<Rightarrow> 'a \<times> nat"

text \<open>\<^verbatim>\<open>Reader\<close> embeds \<^verbatim>\<open>header\<close>: the record extends it.\<close>

record 'a Reader = header +
  reader :: bytes
  archive :: 'a
  blocks :: "Block list"

text \<open>
  \<^verbatim>\<open>Reader.readDataBlock\<close>: the block created for the ID, after its \<^verbatim>\<open>Read\<close> on the stream, and
  the returned error. \<^verbatim>\<open>block.Read(r.reader)\<close> is a statement: nothing it returns is used.
\<close>

definition readDataBlock :: "'a absent \<Rightarrow> byte \<Rightarrow> bytes \<Rightarrow> (Block \<times> error option) \<times> bytes" where
  "readDataBlock ab bid rd =
     (if bid = 0x10 then ((AbsentB bid, None), drop (otherRead ab bid rd) rd)
      else if bid = 0x11 then (let (t, rd) = Process TurboSpeedData0 rd in ((TurboSpeedDataB t, None), rd))
      else if bid = 0x12 then ((AbsentB bid, None), drop (otherRead ab bid rd) rd)
      else if bid = 0x13 then ((AbsentB bid, None), drop (otherRead ab bid rd) rd)
      else if bid = 0x14 then ((AbsentB bid, None), drop (otherRead ab bid rd) rd)
      else if bid = 0x15 then ((AbsentB bid, None), drop (otherRead ab bid rd) rd)
      else if bid = 0x18 then ((AbsentB bid, None), drop (otherRead ab bid rd) rd)
      else if bid = 0x19 then ((AbsentB bid, None), drop (otherRead ab bid rd) rd)
      else if bid = 0x20 then ((AbsentB bid, None), drop (otherRead ab bid rd) rd)
      else if bid = 0x21 then
        (let (g, rd) = GroupStart_Read \<lparr>GroupStart.Length = 0, GroupName = []\<rparr> rd
         in ((GroupStartB g, None), rd))
      else if bid = 0x22 then ((GroupEndB, None), GroupEnd_Read rd)
      else if bid = 0x23 then ((AbsentB bid, None), drop (otherRead ab bid rd) rd)
      else if bid = 0x24 then
        (let (l, rd) = LoopStart_Read \<lparr>RepetitionCount = 0\<rparr> rd in ((LoopStartB l, None), rd))
      else if bid = 0x25 then ((LoopEndB, None), LoopEnd_Read rd)
      else if bid = 0x26 then ((AbsentB bid, None), drop (otherRead ab bid rd) rd)
      else if bid = 0x27 then ((AbsentB bid, None), drop (otherRead ab bid rd) rd)
      else if bid = 0x28 then ((AbsentB bid, None), drop (otherRead ab bid rd) rd)
      else if bid = 0x2a then
        (let (s, rd) = StopTapeWhen48kMode_Read \<lparr>StopTapeWhen48kMode.Length = 0\<rparr> rd
         in ((StopTapeWhen48kModeB s, None), rd))
      else if bid = 0x2b then
        (let (s, rd) = SetSignalLevel_Process \<lparr>SetSignalLevel.Length = 0, SignalLevel = 0\<rparr> rd
         in ((SetSignalLevelB s, None), rd))
      else if bid = 0x30 then ((AbsentB bid, None), drop (otherRead ab bid rd) rd)
      else if bid = 0x31 then ((AbsentB bid, None), drop (otherRead ab bid rd) rd)
      else if bid = 0x32 then ((NilBlock, None), rd)
      else if bid = 0x33 then ((AbsentB bid, None), drop (otherRead ab bid rd) rd)
      else if bid = 0x35 then ((AbsentB bid, None), drop (otherRead ab bid rd) rd)
      else if bid = 0x5a then ((AbsentB bid, None), drop (otherRead ab bid rd) rd)
      else ((NilBlock, Some (UnsupportedBlockID bid)), rd))"

text \<open>The case labels of the switch in \<^verbatim>\<open>readDataBlock\<close>.\<close>

definition known_ids :: "byte list" where
  "known_ids =
     [0x10, 0x11, 0x12, 0x13, 0x14, 0x15, 0x18, 0x19, 0x20, 0x21, 0x22, 0x23, 0x24, 0x25,
      0x26, 0x27, 0x28, 0x2a, 0x2b, 0x30, 0x31, 0x32, 0x33, 0x35, 0x5a]"

text \<open>
  \<^verbatim>\<open>Reader.readHeader\<close>: the returned error and the reader after the call.
\<close>

definition readHeader :: "'a Reader \<Rightarrow> error option \<times> 'a Reader" where
  "readHeader r =
     (let r = r\<lparr>Signature := Signature header0, Terminator := Terminator header0,
                MajorVersion := MajorVersion header0, MinorVersion := MinorVersion header0\<rparr>;
          ((h, err), rd) = binary_Read (reader r);
          r = r\<lparr>reader := rd\<rparr>;
          r = (case h of None \<Rightarrow> r
               | Some h \<Rightarrow> r\<lparr>Signature := Signature h, Terminator := Terminator h,
                             MajorVersion := MajorVersion h, MinorVersion := MinorVersion h\<rparr>)
      in case err of Some e \<Rightarrow> (Some (BinaryReadFailed e), r)
         | None \<Rightarrow> if Signature r \<noteq> ZXTape then (Some NotCorrectFormat, r) else (None, r))"

text \<open>
  \<^verbatim>\<open>NewReader\<close>: \<open>Inl\<close> is the result \<^verbatim>\<open>(nil, err)\<close>, \<open>Inr\<close> the result \<^verbatim>\<open>(t, nil)\<close>; the
  second component says whether \<^verbatim>\<open>valid\<close> printed its warning.
\<close>

definition NewReader :: "'a absent \<Rightarrow> bytes \<Rightarrow> (error + 'a Reader) \<times> bool" where
  "NewReader ab r =
     (let t = header.extend header0 \<lparr>reader = r, archive = archive0 ab, blocks = []\<rparr>;
          (err, t) = readHeader t
      in case err of Some e \<Rightarrow> (Inl e, False)
         | None \<Rightarrow>
             (let (err, warned) = valid t
              in case err of Some e \<Rightarrow> (Inl e, warned) | None \<Rightarrow> (Inr t, warned)))"

lemma ReadBytes_length: "length (snd (ReadBytes n rd)) \<le> length rd"
  by (simp add: ReadBytes_def)

lemma ReadByte_length: "length (snd (ReadByte rd)) \<le> length rd"
  by (simp add: ReadByte_def split: list.split)

lemma ReadByte1_length: "length (snd (ReadByte1 rd)) \<le> length rd"
  by (simp add: ReadByte1_def Let_def case_prod_unfold ReadBytes_length)

lemma ReadShort_length: "length (snd (ReadShort rd)) \<le> length rd"
  by (simp add: ReadShort_def Let_def case_prod_unfold ReadBytes_length)

lemma ReadLong_length: "length (snd (ReadLong rd)) \<le> length rd"
  by (simp add: ReadLong_def Let_def case_prod_unfold ReadBytes_length)

lemma ReadBytes_le: "length rd \<le> n \<Longrightarrow> length (snd (ReadBytes k rd)) \<le> n"
  using ReadBytes_length [of k rd] by simp

lemma ReadByte_le: "length rd \<le> n \<Longrightarrow> length (snd (ReadByte rd)) \<le> n"
  using ReadByte_length [of rd] by simp

lemma ReadByte1_le: "length rd \<le> n \<Longrightarrow> length (snd (ReadByte1 rd)) \<le> n"
  using ReadByte1_length [of rd] by simp

lemma ReadShort_le: "length rd \<le> n \<Longrightarrow> length (snd (ReadShort rd)) \<le> n"
  using ReadShort_length [of rd] by simp

lemma ReadLong_le: "length rd \<le> n \<Longrightarrow> length (snd (ReadLong rd)) \<le> n"
  using ReadLong_length [of rd] by simp

lemmas read_le = ReadBytes_le ReadByte_le ReadByte1_le ReadShort_le ReadLong_le

lemma Process_length: "length (snd (Process t rd)) \<le> length rd"
  by (simp add: Process_def Let_def case_prod_unfold) (intro read_le order_refl)

lemma SetSignalLevel_Process_length: "length (snd (SetSignalLevel_Process s rd)) \<le> length rd"
  by (simp add: SetSignalLevel_Process_def Let_def case_prod_unfold) (intro read_le order_refl)

lemma StopTapeWhen48kMode_Read_length: "length (snd (StopTapeWhen48kMode_Read s rd)) \<le> length rd"
  by (simp add: StopTapeWhen48kMode_Read_def Let_def case_prod_unfold) (intro read_le order_refl)

lemma GroupStart_Read_length: "length (snd (GroupStart_Read g rd)) \<le> length rd"
  by (simp add: GroupStart_Read_def ReadNextBytes_def Let_def case_prod_unfold) (intro read_le order_refl)

lemma LoopStart_Read_length: "length (snd (LoopStart_Read l rd)) \<le> length rd"
  by (simp add: LoopStart_Read_def Let_def case_prod_unfold) (intro read_le order_refl)

lemmas block_length = Process_length SetSignalLevel_Process_length StopTapeWhen48kMode_Read_length
  GroupStart_Read_length LoopStart_Read_length

lemma readDataBlock_length: "length (snd (readDataBlock ab bid rd)) \<le> length rd"
  by (simp add: readDataBlock_def Let_def case_prod_unfold block_length GroupEnd_Read_def LoopEnd_Read_def)

text \<open>
  One pass of the \<^verbatim>\<open>for\<close> loop of \<^verbatim>\<open>Reader.ReadBlocks\<close>. \<open>Inl\<close> leaves the loop with the
  error that \<^verbatim>\<open>ReadBlocks\<close> returns (\<^verbatim>\<open>break\<close> returns \<^verbatim>\<open>nil\<close>) and the reader as it is
  then; \<open>Inr\<close> is the reader at the start of the next pass.
\<close>

definition ReadBlocks_body :: "'a absent \<Rightarrow> 'a Reader \<Rightarrow> (error option \<times> 'a Reader) + 'a Reader" where
  "ReadBlocks_body ab r =
     (let ((blockID, err), rd) = ReadByte (reader r)
      in if err = Some EOF then Inl (None, r\<lparr>reader := rd\<rparr>)
         else if err \<noteq> None then Inl (err, r\<lparr>reader := rd\<rparr>)
         else
     (let ((block, err), rd) = readDataBlock ab blockID rd
      in if err \<noteq> None
         then Inl (Wrap err ''Unable to complete reading TZX blocks'', r\<lparr>reader := rd\<rparr>)
         else if blockID = 0x32 then
           (let (a, n) = archiveRead ab (archive0 ab) rd
            in Inr (r\<lparr>reader := drop n rd, archive := a\<rparr>))
         else Inr (r\<lparr>reader := rd, blocks := blocks r @ [block]\<rparr>)))"

lemma ReadBlocks_body_length:
  "ReadBlocks_body ab r = Inr r' \<Longrightarrow> length (reader r') < length (reader r)"
proof (cases "reader r")
  case Nil
  assume "ReadBlocks_body ab r = Inr r'"
  with Nil show ?thesis by (simp add: ReadBlocks_body_def ReadByte_def)
next
  case (Cons b rest)
  assume a: "ReadBlocks_body ab r = Inr r'"
  have "length (snd (readDataBlock ab b rest)) \<le> length rest"
    by (rule readDataBlock_length)
  with a Cons show ?thesis
    by (auto simp: ReadBlocks_body_def ReadByte_def Let_def case_prod_unfold split: if_splits)
qed

text \<open>\<^verbatim>\<open>Reader.ReadBlocks\<close>: the loop runs until a pass leaves it.\<close>

function ReadBlocks :: "'a absent \<Rightarrow> 'a Reader \<Rightarrow> error option \<times> 'a Reader" where
  "ReadBlocks ab r =
     (case ReadBlocks_body ab r of Inl result \<Rightarrow> result | Inr r' \<Rightarrow> ReadBlocks ab r')"
  by pat_completeness auto
termination
  by (relation "measure (\<lambda>(ab, r). length (reader r))") (simp_all add: ReadBlocks_body_length)

section \<open>Observing the loop, and a sample instance\<close>

text \<open>
  The block IDs that \<^verbatim>\<open>ReadBlocks\<close> reads from the stream, in the order of its passes.
\<close>

function dispatched :: "'a absent \<Rightarrow> 'a Reader \<Rightarrow> byte list" where
  "dispatched ab r =
     (case reader r of [] \<Rightarrow> []
      | blockID # rest \<Rightarrow>
          (case ReadBlocks_body ab r of Inl result \<Rightarrow> [blockID]
           | Inr r' \<Rightarrow> blockID # dispatched ab r'))"
  by pat_completeness auto
termination
  by (relation "measure (\<lambda>(ab, r). length (reader r))") (auto dest: ReadBlocks_body_length)

declare ReadBlocks.simps [simp del]

declare dispatched.simps [simp del]

text \<open>
  An instance of the parts that are not under src/, for running the model on concrete
  streams: the absent variants have no body, and the archive record is the list of the
  bytes read into it, one byte for each \<^verbatim>\<open>Read\<close>. \<open>sample_Reader rd\<close> is the reader that
  \<^verbatim>\<open>NewReader\<close> returns for a version 1.20 header followed by the stream \<open>rd\<close>.
\<close>

definition sample_absent :: "bytes absent" where
  "sample_absent =
     \<lparr>otherRead = (\<lambda>bid rd. 0), archive0 = [], archiveRead = (\<lambda>a rd. (a @ take 1 rd, 1))\<rparr>"

definition sample_Reader :: "bytes \<Rightarrow> bytes Reader" where
  "sample_Reader rd =
     \<lparr>Signature = ZXTape, Terminator = 0x1A, MajorVersion = 1, MinorVersion = 20,
      reader = rd, archive = [], blocks = []\<rparr>"

section \<open>Theorems about the header\<close>

lemma Wrapf_nil: "Wrapf None msg = None"
  by (simp add: Wrapf_def)

lemma valid_never_fails: "fst (valid h) = None"
  by (simp add: valid_def Let_def Wrapf_nil)

text \<open>
  With ten bytes or more in the stream \<^verbatim>\<open>readHeader\<close> decodes the header and checks the
  signature only; with fewer it fails.
\<close>

lemma readHeader_ok:
  "10 \<le> length (reader r) \<Longrightarrow>
   readHeader r =
     (if take 7 (reader r) \<noteq> ZXTape then Some NotCorrectFormat else None,
      r\<lparr>Signature := take 7 (reader r), Terminator := reader r ! 7,
        MajorVersion := reader r ! 8, MinorVersion := reader r ! 9,
        reader := drop 10 (reader r)\<rparr>)"
  by (simp add: readHeader_def binary_Read_def Let_def)

lemma readHeader_short:
  "length (reader r) < 10 \<Longrightarrow> fst (readHeader r) \<noteq> None"
  by (simp add: readHeader_def binary_Read_def Let_def)

text \<open>
  \<^verbatim>\<open>NewReader\<close> succeeds exactly when the stream holds ten bytes that start with the
  signature: the terminator and the versions do not decide it.
\<close>

lemma NewReader_succeeds_iff:
  "(\<exists>t w. NewReader ab s = (Inr t, w)) \<longleftrightarrow> (10 \<le> length s \<and> take 7 s = ZXTape)"
proof (cases "10 \<le> length s")
  case True
  then show ?thesis
    by (auto simp: valid_never_fails NewReader_def Let_def readHeader_ok header.defs Reader.defs case_prod_unfold
        split: option.splits)
next
  case False
  then have "fst (readHeader (header.extend header0 \<lparr>reader = s, archive = archive0 ab, blocks = []\<rparr>)) \<noteq> None"
    by (intro readHeader_short) (simp add: header.defs)
  with False show ?thesis
    by (auto simp: NewReader_def Let_def case_prod_unfold split: option.splits)
qed

text \<open>A header with the right terminator and major version 1: the warning is printed exactly
  for a minor version below 20, and \<^verbatim>\<open>NewReader\<close> succeeds in both cases.\<close>

lemma NewReader_valid_header:
  "NewReader ab (ZXTape @ [0x1A, 1, m] @ rest) =
     (Inr \<lparr>Signature = ZXTape, Terminator = 0x1A, MajorVersion = 1, MinorVersion = m,
           reader = rest, archive = archive0 ab, blocks = []\<rparr>, m < 20)"
  by (simp add: NewReader_def readHeader_def binary_Read_def valid_def Wrapf_def Let_def
      ZXTape_def header0_def header.defs supportedMajorVersion_def supportedMinorVersion_def)

text \<open>
  Claim C1: header decoding succeeds if and only if the signature is \<^verbatim>\<open>ZXTape!\<close>, the
  terminator is 0x1A and the major version is 1; a wrong terminator or major version is
  fatal. The code does not do this: \<^verbatim>\<open>valid\<close> builds its error with
  \<^verbatim>\<open>errors.Wrapf(validationError, ...)\<close> from a \<^verbatim>\<open>nil\<close> error, which stays \<^verbatim>\<open>nil\<close>. The header
  \<^verbatim>\<open>ZXTape!\<close>, terminator 0x00, version 2.0 is accepted: \<^verbatim>\<open>NewReader\<close> returns the reader and
  no error.
\<close>

theorem NewReader_accepts_wrong_terminator_and_version:
  "NewReader ab (ZXTape @ [0x00, 0x02, 0x00]) =
     (Inr \<lparr>Signature = ZXTape, Terminator = 0x00, MajorVersion = 0x02, MinorVersion = 0x00,
           reader = [], archive = archive0 ab, blocks = []\<rparr>, False)"
  by (simp add: NewReader_def readHeader_def binary_Read_def valid_def Wrapf_def Let_def
      ZXTape_def header0_def header.defs supportedMajorVersion_def)

section \<open>Reads on explicit streams, and the passes of the loop\<close>

text \<open>
  The readers on a stream that holds the bytes they ask for, the result of the dispatcher
  for known and unknown IDs, and what one pass of \<^verbatim>\<open>ReadBlocks\<close> does for each kind of ID.
\<close>

lemma ReadByte_Nil: "ReadByte [] = ((0, Some EOF), [])"
  by (simp add: ReadByte_def)

lemma ReadByte_Cons: "ReadByte (b # rest) = ((b, None), rest)"
  by (simp add: ReadByte_def)

lemma ReadBytes_append: "length bs = n \<Longrightarrow> ReadBytes n (bs @ rest) = (bs, rest)"
  by (simp add: ReadBytes_def)

lemma ReadByte1_Cons: "ReadByte1 (b # rest) = (b, rest)"
  by (simp add: ReadByte1_def ReadBytes_def le_value_def)

lemma ReadShort_Cons:
  "ReadShort (b0 # b1 # rest) = (word_of_nat (le_value [b0, b1]), rest)"
  by (simp add: ReadShort_def ReadBytes_def)

lemma ReadLong_Cons:
  "ReadLong (b0 # b1 # b2 # b3 # rest) = (word_of_nat (le_value [b0, b1, b2, b3]), rest)"
  by (simp add: ReadLong_def ReadBytes_def)

lemma readDataBlock_unknown:
  "bid \<notin> set known_ids \<Longrightarrow>
   readDataBlock ab bid rd = ((NilBlock, Some (UnsupportedBlockID bid)), rd)"
  by (simp add: known_ids_def readDataBlock_def)

lemma readDataBlock_known:
  "bid \<in> set known_ids \<Longrightarrow> snd (fst (readDataBlock ab bid rd)) = None"
  by (auto simp add: known_ids_def readDataBlock_def Let_def case_prod_unfold)

lemma readDataBlock_Id:
  "bid \<in> set known_ids \<Longrightarrow> bid \<noteq> 0x32 \<Longrightarrow>
   Id_of (fst (fst (readDataBlock ab bid rd))) = Some bid"
  by (auto simp add: known_ids_def readDataBlock_def Let_def case_prod_unfold)

lemma ReadBlocks_body_Nil:
  "reader r = [] \<Longrightarrow> ReadBlocks_body ab r = Inl (None, r)"
  by (simp add: ReadBlocks_body_def ReadByte_Nil)

lemma ReadBlocks_body_unknown:
  "reader r = bid # rest \<Longrightarrow> bid \<notin> set known_ids \<Longrightarrow>
   ReadBlocks_body ab r =
     Inl (Some (Wrapped (UnsupportedBlockID bid) ''Unable to complete reading TZX blocks''),
          r\<lparr>reader := rest\<rparr>)"
  by (simp add: ReadBlocks_body_def ReadByte_Cons readDataBlock_unknown Wrap_def)

lemma ReadBlocks_body_archive:
  "reader r = 0x32 # rest \<Longrightarrow>
   ReadBlocks_body ab r =
     Inr (r\<lparr>reader := drop (snd (archiveRead ab (archive0 ab) rest)) rest,
            archive := fst (archiveRead ab (archive0 ab) rest)\<rparr>)"
  by (simp add: ReadBlocks_body_def ReadByte_Cons readDataBlock_def Let_def case_prod_unfold)

lemma ReadBlocks_body_block:
  "reader r = bid # rest \<Longrightarrow> bid \<in> set known_ids \<Longrightarrow> bid \<noteq> 0x32 \<Longrightarrow>
   ReadBlocks_body ab r =
     Inr (r\<lparr>reader := snd (readDataBlock ab bid rest),
            blocks := blocks r @ [fst (fst (readDataBlock ab bid rest))]\<rparr>)"
  using readDataBlock_known [of bid ab rest]
  by (simp add: ReadBlocks_body_def ReadByte_Cons Let_def case_prod_unfold)

lemma ReadBlocks_Nil: "reader r = [] \<Longrightarrow> ReadBlocks ab r = (None, r)"
  by (subst ReadBlocks.simps) (simp add: ReadBlocks_body_Nil)

lemma ReadBlocks_unknown:
  "reader r = bid # rest \<Longrightarrow> bid \<notin> set known_ids \<Longrightarrow>
   ReadBlocks ab r =
     (Some (Wrapped (UnsupportedBlockID bid) ''Unable to complete reading TZX blocks''),
      r\<lparr>reader := rest\<rparr>)"
  by (subst ReadBlocks.simps) (simp add: ReadBlocks_body_unknown)

lemma ReadBlocks_archive:
  "reader r = 0x32 # rest \<Longrightarrow>
   ReadBlocks ab r =
     ReadBlocks ab (r\<lparr>reader := drop (snd (archiveRead ab (archive0 ab) rest)) rest,
            archive := fst (archiveRead ab (archive0 ab) rest)\<rparr>)"
  by (subst ReadBlocks.simps) (simp add: ReadBlocks_body_archive)

lemma ReadBlocks_block:
  "reader r = bid # rest \<Longrightarrow> bid \<in> set known_ids \<Longrightarrow> bid \<noteq> 0x32 \<Longrightarrow>
   ReadBlocks ab r =
     ReadBlocks ab (r\<lparr>reader := snd (readDataBlock ab bid rest),
            blocks := blocks r @ [fst (fst (readDataBlock ab bid rest))]\<rparr>)"
  by (subst ReadBlocks.simps) (simp add: ReadBlocks_body_block)

section \<open>Unsupported block IDs\<close>

text \<open>
  Claim C5: for every block ID that is not a case of the switch (0x16, 0x17, 0x34 and 0x40
  among them) \<^verbatim>\<open>readDataBlock\<close> fails with the unsupported-block-ID error and reads nothing;
  \<^verbatim>\<open>ReadBlocks\<close>, whatever it has read before, returns that error wrapped at once, and its
  block list is the one it had: no block is appended for the ID.
\<close>

theorem unsupported_block_id_aborts:
  "bid \<notin> set known_ids \<Longrightarrow>
   readDataBlock ab bid rest = ((NilBlock, Some (UnsupportedBlockID bid)), rest) \<and>
   ReadBlocks ab (r\<lparr>reader := bid # rest\<rparr>) =
     (Some (Wrapped (UnsupportedBlockID bid) ''Unable to complete reading TZX blocks''),
      r\<lparr>reader := rest\<rparr>)"
  using ReadBlocks_unknown [of "r\<lparr>reader := bid # rest\<rparr>" bid rest ab]
  by (simp add: readDataBlock_unknown)

theorem unsupported_block_id_aborts_witness:
  "(0x16 :: byte) \<notin> set known_ids \<and> (0x17 :: byte) \<notin> set known_ids \<and>
   (0x34 :: byte) \<notin> set known_ids \<and> (0x40 :: byte) \<notin> set known_ids \<and>
   readDataBlock sample_absent 0x16 [0x25] = ((NilBlock, Some (UnsupportedBlockID 0x16)), [0x25]) \<and>
   ReadBlocks sample_absent ((sample_Reader [])\<lparr>reader := [0x16, 0x25]\<rparr>) =
     (Some (Wrapped (UnsupportedBlockID 0x16) ''Unable to complete reading TZX blocks''),
      (sample_Reader [])\<lparr>reader := [0x25]\<rparr>)"
  using unsupported_block_id_aborts [of "0x16" sample_absent "[0x25]" "sample_Reader []"]
  by (simp add: known_ids_def)

section \<open>A container with one block without body\<close>

text \<open>
  Claim C9: for a valid header (any minor version \<open>m\<close>) followed by the loop-end ID 0x25
  and the end of the input, \<^verbatim>\<open>NewReader\<close> succeeds, \<^verbatim>\<open>ReadBlocks\<close> returns no error with the
  stream exhausted and the block list holding exactly one loop-end block, and the decoding of
  the loop-end block leaves every stream as it is: it consumes no byte.
\<close>

theorem loop_end_only_container:
  "NewReader ab (ZXTape @ [0x1A, 1, m, 0x25]) =
     (Inr \<lparr>Signature = ZXTape, Terminator = 0x1A, MajorVersion = 1, MinorVersion = m,
           reader = [0x25], archive = archive0 ab, blocks = []\<rparr>, m < 20) \<and>
   ReadBlocks ab \<lparr>Signature = ZXTape, Terminator = 0x1A, MajorVersion = 1, MinorVersion = m,
           reader = [0x25], archive = archive0 ab, blocks = []\<rparr> =
     (None, \<lparr>Signature = ZXTape, Terminator = 0x1A, MajorVersion = 1, MinorVersion = m,
           reader = [], archive = archive0 ab, blocks = [LoopEndB]\<rparr>) \<and>
   readDataBlock ab 0x25 rd = ((LoopEndB, None), rd)"
proof -
  let ?r = "\<lparr>Signature = ZXTape, Terminator = 0x1A, MajorVersion = 1, MinorVersion = m,
           reader = [0x25], archive = archive0 ab, blocks = []\<rparr>"
  have d: "readDataBlock ab 0x25 rd = ((LoopEndB, None), rd)" for rd
    by (simp add: readDataBlock_def LoopEnd_Read_def)
  have "ReadBlocks ab ?r = ReadBlocks ab (?r\<lparr>reader := [], blocks := [LoopEndB]\<rparr>)"
    by (subst ReadBlocks_block [of ?r "0x25" "[]"]) (simp_all add: known_ids_def d)
  also have "\<dots> = (None, ?r\<lparr>reader := [], blocks := [LoopEndB]\<rparr>)"
    by (rule ReadBlocks_Nil) simp
  finally have "ReadBlocks ab ?r = (None, ?r\<lparr>reader := [], blocks := [LoopEndB]\<rparr>)" .
  moreover have "NewReader ab (ZXTape @ [0x1A, 1, m, 0x25]) = (Inr ?r, m < 20)"
    using NewReader_valid_header [of ab m "[0x25]"] by simp
  ultimately show ?thesis using d by simp
qed


section \<open>The archive info block\<close>

text \<open>Running the model on a stream with two archive info blocks among other blocks.\<close>

lemma sample_stream_eval:
  "ReadBlocks sample_absent (sample_Reader [0x25, 0x32, 7, 0x25, 0x32, 9, 0x22]) =
     (None, (sample_Reader [])\<lparr>archive := [9], blocks := [LoopEndB, LoopEndB, GroupEndB]\<rparr>)"
  by (simp add: ReadBlocks.simps ReadBlocks_body_def ReadByte_def readDataBlock_def
      sample_Reader_def sample_absent_def LoopEnd_Read_def GroupEnd_Read_def)

text \<open>
  A pass of the loop that continues keeps the block list free of blocks with ID 0x32; a
  pass that leaves the loop keeps the block list.
\<close>

lemma ReadBlocks_blocks_no_archive_step:
  "ReadBlocks_body ab r = Inr r' \<Longrightarrow> \<forall>b \<in> set (blocks r). Id_of b \<noteq> Some 0x32 \<Longrightarrow>
   \<forall>b \<in> set (blocks r'). Id_of b \<noteq> Some 0x32"
proof (cases "reader r")
  case Nil
  assume "ReadBlocks_body ab r = Inr r'"
  with Nil show ?thesis by (simp add: ReadBlocks_body_Nil)
next
  case (Cons bid rest)
  assume a: "ReadBlocks_body ab r = Inr r'" and b: "\<forall>b \<in> set (blocks r). Id_of b \<noteq> Some 0x32"
  show ?thesis
  proof (cases "bid \<in> set known_ids")
    case False
    with a Cons show ?thesis by (simp add: ReadBlocks_body_unknown)
  next
    case True
    show ?thesis
    proof (cases "bid = 0x32")
      case True
      with a b Cons show ?thesis by (auto simp: ReadBlocks_body_archive)
    next
      case False
      with a b Cons \<open>bid \<in> set known_ids\<close> show ?thesis
        by (auto simp: ReadBlocks_body_block readDataBlock_Id)
    qed
  qed
qed

lemma ReadBlocks_body_Inl_blocks:
  "ReadBlocks_body ab r = Inl (e, r') \<Longrightarrow> blocks r' = blocks r"
  by (auto simp: ReadBlocks_body_def Let_def case_prod_unfold split: if_splits)

lemma ReadBlocks_blocks_no_archive:
  "\<forall>b \<in> set (blocks r). Id_of b \<noteq> Some 0x32 \<Longrightarrow>
   \<forall>b \<in> set (blocks (snd (ReadBlocks ab r))). Id_of b \<noteq> Some 0x32"
proof (induction ab r rule: ReadBlocks.induct)
  case (1 ab r)
  show ?case
  proof (cases "ReadBlocks_body ab r")
    case (Inl res)
    then have "blocks (snd res) = blocks r"
      using ReadBlocks_body_Inl_blocks [of ab r "fst res" "snd res"] by simp
    with Inl 1(2) show ?thesis by (subst ReadBlocks.simps) simp
  next
    case (Inr r')
    have "\<forall>b \<in> set (blocks r'). Id_of b \<noteq> Some 0x32"
      using ReadBlocks_blocks_no_archive_step [OF Inr 1(2)] .
    then have "\<forall>b \<in> set (blocks (snd (ReadBlocks ab r'))). Id_of b \<noteq> Some 0x32"
      using 1(1) [OF Inr] by simp
    with Inr show ?thesis by (subst ReadBlocks.simps) simp
  qed
qed


text \<open>
  Claim C8: \<^verbatim>\<open>ReadBlocks\<close> never appends a block with the archive info ID 0x32 to the
  block list: a list without such a block has none after \<^verbatim>\<open>ReadBlocks\<close>, for every stream.
  Wherever the ID 0x32 stands in the stream, the pass of the loop that reads it decodes
  into the archive field and leaves the block list as it is.
\<close>

theorem archive_info_never_in_blocks:
  "Some 0x32 \<notin> set (map Id_of (blocks r)) \<Longrightarrow>
   Some 0x32 \<notin> set (map Id_of (blocks (snd (ReadBlocks ab r)))) \<and>
   ReadBlocks_body ab (r\<lparr>reader := 0x32 # rest\<rparr>) =
     Inr (r\<lparr>reader := drop (snd (archiveRead ab (archive0 ab) rest)) rest,
            archive := fst (archiveRead ab (archive0 ab) rest)\<rparr>)"
proof -
  assume "Some 0x32 \<notin> set (map Id_of (blocks r))"
  then have "\<forall>b \<in> set (blocks r). Id_of b \<noteq> Some 0x32" by force
  then have "\<forall>b \<in> set (blocks (snd (ReadBlocks ab r))). Id_of b \<noteq> Some 0x32"
    by (rule ReadBlocks_blocks_no_archive)
  then have "Some 0x32 \<notin> set (map Id_of (blocks (snd (ReadBlocks ab r))))" by force
  moreover have "ReadBlocks_body ab (r\<lparr>reader := 0x32 # rest\<rparr>) =
     Inr (r\<lparr>reader := drop (snd (archiveRead ab (archive0 ab) rest)) rest,
            archive := fst (archiveRead ab (archive0 ab) rest)\<rparr>)"
    using ReadBlocks_body_archive [of "r\<lparr>reader := 0x32 # rest\<rparr>" rest ab] by simp
  ultimately show ?thesis by simp
qed

theorem archive_info_never_in_blocks_witness:
  "Some 0x32 \<notin> set (map Id_of (blocks (sample_Reader [0x25, 0x32, 7, 0x25, 0x32, 9, 0x22]))) \<and>
   Some 0x32 \<notin> set (map Id_of (blocks (snd (ReadBlocks sample_absent
      (sample_Reader [0x25, 0x32, 7, 0x25, 0x32, 9, 0x22]))))) \<and>
   ReadBlocks_body sample_absent
      ((sample_Reader [0x25, 0x32, 7, 0x25, 0x32, 9, 0x22])\<lparr>reader := [0x32, 7]\<rparr>) =
     Inr ((sample_Reader [])\<lparr>archive := [7]\<rparr>)"
proof -
  have h: "Some 0x32 \<notin> set (map Id_of (blocks (sample_Reader [0x25, 0x32, 7, 0x25, 0x32, 9, 0x22])))"
    by (simp add: sample_Reader_def)
  have e: "(sample_Reader [0x25, 0x32, 7, 0x25, 0x32, 9, 0x22])
       \<lparr>reader := drop (snd (archiveRead sample_absent (archive0 sample_absent) [7])) [7],
         archive := fst (archiveRead sample_absent (archive0 sample_absent) [7])\<rparr> =
       (sample_Reader [])\<lparr>archive := [7]\<rparr>"
    by (simp add: sample_Reader_def sample_absent_def)
  show ?thesis
    using h archive_info_never_in_blocks [OF h, of sample_absent "[7]"] unfolding e by blast
qed


text \<open>
  A pass that reads another ID than 0x32 keeps the archive field, and so does the whole
  loop when it reads no ID 0x32.
\<close>

lemma ReadBlocks_body_archive_kept:
  "reader r = bid # rest \<Longrightarrow> bid \<noteq> 0x32 \<Longrightarrow> ReadBlocks_body ab r = Inr r' \<Longrightarrow>
   archive r' = archive r"
  by (auto simp: ReadBlocks_body_def ReadByte_Cons Let_def case_prod_unfold split: if_splits)

lemma ReadBlocks_body_Inl_archive:
  "ReadBlocks_body ab r = Inl (e, r') \<Longrightarrow> archive r' = archive r"
  by (auto simp: ReadBlocks_body_def Let_def case_prod_unfold split: if_splits)

lemma ReadBlocks_archive_kept:
  "0x32 \<notin> set (dispatched ab r) \<Longrightarrow> archive (snd (ReadBlocks ab r)) = archive r"
proof (induction ab r rule: ReadBlocks.induct)
  case (1 ab r)
  show ?case
  proof (cases "ReadBlocks_body ab r")
    case (Inl res)
    then have "archive (snd res) = archive r"
      using ReadBlocks_body_Inl_archive [of ab r "fst res" "snd res"] by simp
    with Inl show ?thesis by (subst ReadBlocks.simps) simp
  next
    case (Inr r')
    then obtain bid rest where c: "reader r = bid # rest"
      by (cases "reader r") (simp_all add: ReadBlocks_body_Nil)
    with Inr have d: "dispatched ab r = bid # dispatched ab r'"
      by (subst dispatched.simps) simp
    with 1(2) have "bid \<noteq> 0x32" and "0x32 \<notin> set (dispatched ab r')" by auto
    then have "archive (snd (ReadBlocks ab r')) = archive r'" and "archive r' = archive r"
      using 1(1) [OF Inr] ReadBlocks_body_archive_kept [OF c _ Inr] by simp_all
    with Inr show ?thesis by (subst ReadBlocks.simps) simp
  qed
qed

text \<open>
  Claim C10: every archive info block (ID 0x32) resets the archive record to its zero
  value and decodes into it, whatever the record held. When the loop stands at an archive
  info block and reads no further ID 0x32 after it, the archive field after \<^verbatim>\<open>ReadBlocks\<close> is
  the decoding of that last block alone; what earlier archive info blocks left in the field
  (the archive of \<open>r\<close>) is lost.
\<close>

theorem archive_holds_last_archive_block:
  "reader r = 0x32 # rest \<Longrightarrow>
   0x32 \<notin> set (dispatched ab
      (r\<lparr>reader := drop (snd (archiveRead ab (archive0 ab) rest)) rest,
         archive := fst (archiveRead ab (archive0 ab) rest)\<rparr>)) \<Longrightarrow>
   archive (snd (ReadBlocks ab r)) = fst (archiveRead ab (archive0 ab) rest)"
proof -
  assume a: "reader r = 0x32 # rest"
    and b: "0x32 \<notin> set (dispatched ab
      (r\<lparr>reader := drop (snd (archiveRead ab (archive0 ab) rest)) rest,
         archive := fst (archiveRead ab (archive0 ab) rest)\<rparr>))"
  show ?thesis
    using ReadBlocks_archive [OF a, of ab] ReadBlocks_archive_kept [OF b] by simp
qed

theorem archive_holds_last_archive_block_witness:
  "reader ((sample_Reader [0x32, 9, 0x22])\<lparr>archive := [7]\<rparr>) = 0x32 # [9, 0x22] \<and>
   0x32 \<notin> set (dispatched sample_absent ((sample_Reader [0x22])\<lparr>archive := [9]\<rparr>)) \<and>
   archive (snd (ReadBlocks sample_absent ((sample_Reader [0x32, 9, 0x22])\<lparr>archive := [7]\<rparr>))) = [9]"
proof -
  let ?r = "(sample_Reader [0x32, 9, 0x22])\<lparr>archive := [7]\<rparr>"
  have a: "reader ?r = 0x32 # [9, 0x22]"
    by (simp add: sample_Reader_def)
  have b: "0x32 \<notin> set (dispatched sample_absent ((sample_Reader [0x22])\<lparr>archive := [9]\<rparr>))"
    by (simp add: dispatched.simps ReadBlocks_body_def ReadByte_def readDataBlock_def
        sample_Reader_def sample_absent_def GroupEnd_Read_def)
  show ?thesis
    using a b archive_holds_last_archive_block [OF a, of sample_absent]
    by (simp add: sample_Reader_def sample_absent_def)
qed

end
